theory Spec2Isabelle
  imports Complex_Main
begin

section \<open>Text normalisation (services/plagiarism-service/app/services)\<close>

text \<open>
  A Python \<open>str\<close> is modelled as a \<open>string\<close> whose characters are the code points
  below 256. On that range \<open>str.lower\<close> maps \<open>A..Z\<close> and the upper-case Latin-1
  letters to their lower-case forms, and the regular expression class \<open>\s\<close>,
  \<open>str.strip\<close> and \<open>str.split\<close> treat the code points 9-13, 28-32, 133 and 160 as white
  space.
\<close>

definition is_space :: "char \<Rightarrow> bool" where
  "is_space c = (let n = (of_char c :: nat) in
     (9 \<le> n \<and> n \<le> 13) \<or> (28 \<le> n \<and> n \<le> 32) \<or> n = 133 \<or> n = 160)"

definition lower_char :: "char \<Rightarrow> char" where
  "lower_char c = (let n = (of_char c :: nat) in
     if (65 \<le> n \<and> n \<le> 90) \<or> (192 \<le> n \<and> n \<le> 222 \<and> n \<noteq> 215)
     then char_of (n + 32) else c)"

definition lower :: "string \<Rightarrow> string" where
  "lower text = map lower_char text"

definition is_alnum_lower :: "char \<Rightarrow> bool" where
  "is_alnum_lower c = (let n = (of_char c :: nat) in
     (97 \<le> n \<and> n \<le> 122) \<or> (48 \<le> n \<and> n \<le> 57))"

text \<open>\<open>re.sub(r'\s+', ' ', text)\<close>: every maximal run of white space becomes one blank.\<close>

function collapse_whitespace :: "string \<Rightarrow> string" where
  "collapse_whitespace [] = []"
| "collapse_whitespace (c # cs) =
     (if is_space c then CHR '' '' # collapse_whitespace (dropWhile is_space cs)
      else c # collapse_whitespace cs)"
  by pat_completeness auto
termination
  by (relation "measure length") (auto simp: le_imp_less_Suc length_dropWhile_le)

text \<open>\<open>re.sub(r'[^a-z0-9\s]', '', text)\<close>: only \<open>a..z\<close>, \<open>0..9\<close> and white space stay.\<close>

definition remove_special :: "string \<Rightarrow> string" where
  "remove_special text = filter (\<lambda>c. is_alnum_lower c \<or> is_space c) text"

definition strip :: "string \<Rightarrow> string" where
  "strip text = rev (dropWhile is_space (rev (dropWhile is_space text)))"

definition preprocess_text :: "string \<Rightarrow> string" where
  "preprocess_text text = strip (remove_special (collapse_whitespace (lower text)))"

text \<open>\<open>text.split()\<close>: the maximal runs of characters that are not white space.\<close>

function tokenize :: "string \<Rightarrow> string list" where
  "tokenize [] = []"
| "tokenize (c # cs) =
     (if is_space c then tokenize cs
      else (c # takeWhile (\<lambda>x. \<not> is_space x) cs) # tokenize (dropWhile (\<lambda>x. \<not> is_space x) cs))"
  by pat_completeness auto
termination
  by (relation "measure length") (auto simp: le_imp_less_Suc length_dropWhile_le)

section \<open>Cosine similarity\<close>

text \<open>
  Python floats are modelled by the real numbers. The term counts and the three sums over
  them are Python integers in the source and natural numbers here; \<open>Counter(tokens)\<close> is
  the function \<open>count_list tokens\<close>, whose value is 0 off the token list as
  \<open>counter.get(word, 0)\<close> is. The union of the key sets is enumerated in the order of
  first occurrence.
\<close>

text \<open>\<open>round(x, 2)\<close>: to the nearest multiple of 0.01, a tie going to the even one.\<close>

definition round2 :: "real \<Rightarrow> real" where
  "round2 x = (let y = x * 100; f = \<lfloor>y\<rfloor>; d = y - of_int f in
     (if d < 1 / 2 then of_int f
      else if 1 / 2 < d then of_int (f + 1)
      else if even f then of_int f else of_int (f + 1)) / 100)"

definition all_words :: "string list \<Rightarrow> string list \<Rightarrow> string list" where
  "all_words tokens1 tokens2 = remdups (tokens1 @ tokens2)"

definition calculate_cosine_similarity :: "string \<Rightarrow> string \<Rightarrow> real" where
  "calculate_cosine_similarity text1 text2 =
     (let tokens1 = tokenize (preprocess_text text1);
          tokens2 = tokenize (preprocess_text text2)
      in if tokens1 = [] \<or> tokens2 = [] then 0
         else
           let ws = all_words tokens1 tokens2;
               vec1 = map (count_list tokens1) ws;
               vec2 = map (count_list tokens2) ws;
               dot_product = sum_list (map2 (*) vec1 vec2);
               magnitude1 = sqrt (real (sum_list (map (\<lambda>a. a * a) vec1)));
               magnitude2 = sqrt (real (sum_list (map (\<lambda>b. b * b) vec2)))
           in if magnitude1 = 0 \<or> magnitude2 = 0 then 0
              else round2 (real dot_product / (magnitude1 * magnitude2) * 100))"

section \<open>Text extraction\<close>

text \<open>
  The Python runtime and the file system are a parameter of the model. Every call that
  leaves the repository (the file system, \<open>pathlib\<close>, PyPDF2, python-docx, openpyxl) is a
  field of \<open>env\<close>; a call that can raise returns a sum whose left side is the exception.
  A PDF is the list of its pages, each page the outcome of \<open>page.extract_text()\<close>; a Word
  document is the list of its paragraph texts; a workbook is the list of its sheets, a
  sheet the list of its rows, a cell \<open>None\<close> or the \<open>str\<close> of its value.
\<close>

datatype py_exception = ImportError | OSError | LibraryError

record env =
  path_exists :: "string \<Rightarrow> bool"
  path_suffix :: "string \<Rightarrow> string"
  open_read :: "string \<Rightarrow> py_exception + string"
  PyPDF2_installed :: bool
  PdfReader :: "string \<Rightarrow> py_exception + (py_exception + string) list"
  docx_installed :: bool
  Document :: "string \<Rightarrow> py_exception + string list"
  openpyxl_installed :: bool
  load_workbook :: "string \<Rightarrow> py_exception + string option list list list"

text \<open>\<open>try: body except Exception: handler\<close>.\<close>

definition try_except ::
  "py_exception + 'a \<Rightarrow> (py_exception \<Rightarrow> py_exception + 'a) \<Rightarrow> py_exception + 'a" where
  "try_except body handler = (case body of Inl e \<Rightarrow> handler e | Inr v \<Rightarrow> Inr v)"

definition newline :: string where
  "newline = [char_of (10 :: nat)]"

text \<open>\<open>sep.join(parts)\<close>.\<close>

fun join :: "string \<Rightarrow> string list \<Rightarrow> string" where
  "join sep [] = []"
| "join sep [x] = x"
| "join sep (x # y # ys) = x @ sep @ join sep (y # ys)"

text \<open>The loop over \<open>pdf_reader.pages\<close>: \<open>text += page.extract_text() + "\n"\<close>.\<close>

fun pdf_pages_loop :: "(py_exception + string) list \<Rightarrow> string \<Rightarrow> py_exception + string" where
  "pdf_pages_loop [] text = Inr text"
| "pdf_pages_loop (page # pages) text =
     (case page of
        Inl e \<Rightarrow> Inl e
      | Inr page_text \<Rightarrow> pdf_pages_loop pages (text @ page_text @ newline))"

definition extract_text_from_pdf :: "env \<Rightarrow> string \<Rightarrow> py_exception + string" where
  "extract_text_from_pdf ev file_path =
     try_except
       (if \<not> PyPDF2_installed ev then Inr []
        else case PdfReader ev file_path of
               Inl e \<Rightarrow> Inl e
             | Inr pages \<Rightarrow> pdf_pages_loop pages [])
       (\<lambda>e. Inr [])"

definition extract_text_from_docx :: "env \<Rightarrow> string \<Rightarrow> py_exception + string" where
  "extract_text_from_docx ev file_path =
     try_except
       (if \<not> docx_installed ev then Inr []
        else case Document ev file_path of
               Inl e \<Rightarrow> Inl e
             | Inr paragraphs \<Rightarrow> Inr (join newline paragraphs))
       (\<lambda>e. Inr [])"

text \<open>The two loops over the sheets and their rows.\<close>

fun xlsx_rows_loop :: "string option list list \<Rightarrow> string \<Rightarrow> string" where
  "xlsx_rows_loop [] text = text"
| "xlsx_rows_loop (row # rows) text =
     (let row_text = join '' '' (map (\<lambda>cell. case cell of None \<Rightarrow> [] | Some v \<Rightarrow> v) row)
      in xlsx_rows_loop rows (if strip row_text \<noteq> [] then text @ row_text @ newline else text))"

fun xlsx_sheets_loop :: "string option list list list \<Rightarrow> string \<Rightarrow> string" where
  "xlsx_sheets_loop [] text = text"
| "xlsx_sheets_loop (sheet # sheets) text = xlsx_sheets_loop sheets (xlsx_rows_loop sheet text)"

definition extract_text_from_xlsx :: "env \<Rightarrow> string \<Rightarrow> py_exception + string" where
  "extract_text_from_xlsx ev file_path =
     try_except
       (if \<not> openpyxl_installed ev then Inr []
        else case load_workbook ev file_path of
               Inl e \<Rightarrow> Inl e
             | Inr worksheets \<Rightarrow> Inr (xlsx_sheets_loop worksheets []))
       (\<lambda>e. Inr [])"

definition extract_text_from_file :: "env \<Rightarrow> string \<Rightarrow> py_exception + string" where
  "extract_text_from_file ev file_path =
     (if \<not> path_exists ev file_path then Inr []
      else
        let file_ext = lower (path_suffix ev file_path)
        in try_except
             (if file_ext = ''.pdf'' then extract_text_from_pdf ev file_path
              else if file_ext \<in> set [''.docx'', ''.doc''] then extract_text_from_docx ev file_path
              else if file_ext \<in> set [''.xlsx'', ''.xls''] then extract_text_from_xlsx ev file_path
              else if file_ext = ''.txt'' \<or> file_ext = [] then open_read ev file_path
              else open_read ev file_path)
             (\<lambda>e. Inr []))"

section \<open>Comparing files and submissions\<close>

text \<open>Scores are \<open>Decimal\<close> values in the source and reals here.\<close>

definition compare_submissions :: "env \<Rightarrow> string \<Rightarrow> string \<Rightarrow> py_exception + real" where
  "compare_submissions ev file_path1 file_path2 =
     (case extract_text_from_file ev file_path1 of
        Inl e \<Rightarrow> Inl e
      | Inr text1 \<Rightarrow>
          (case extract_text_from_file ev file_path2 of
             Inl e \<Rightarrow> Inl e
           | Inr text2 \<Rightarrow>
               if length text1 < 50 \<or> length text2 < 50 then Inr 0
               else Inr (calculate_cosine_similarity text1 text2)))"

text \<open>
  Identifiers are UUIDs. A UUID is modelled by its 128-bit value as a natural number; the
  order of the canonical strings \<open>str(uuid)\<close> and the order of the UUIDs are both the
  order of these numbers.
\<close>

type_synonym uuid = nat

type_synonym file_ref = "uuid \<times> string"

text \<open>The inner and the outer loop of \<open>compare_all_files_in_submissions\<close>.\<close>

fun files2_loop :: "env \<Rightarrow> string \<Rightarrow> file_ref list \<Rightarrow> real \<Rightarrow> py_exception + real" where
  "files2_loop ev path1 [] max_similarity = Inr max_similarity"
| "files2_loop ev path1 ((file2_id, path2) # files2) max_similarity =
     (case compare_submissions ev path1 path2 of
        Inl e \<Rightarrow> Inl e
      | Inr similarity \<Rightarrow>
          files2_loop ev path1 files2
            (if similarity > max_similarity then similarity else max_similarity))"

fun files1_loop :: "env \<Rightarrow> file_ref list \<Rightarrow> file_ref list \<Rightarrow> real \<Rightarrow> py_exception + real" where
  "files1_loop ev [] submission2_files max_similarity = Inr max_similarity"
| "files1_loop ev ((file1_id, path1) # files1) submission2_files max_similarity =
     (case files2_loop ev path1 submission2_files max_similarity of
        Inl e \<Rightarrow> Inl e
      | Inr m \<Rightarrow> files1_loop ev files1 submission2_files m)"

definition compare_all_files_in_submissions ::
  "env \<Rightarrow> file_ref list \<Rightarrow> file_ref list \<Rightarrow> py_exception + real" where
  "compare_all_files_in_submissions ev submission1_files submission2_files =
     files1_loop ev submission1_files submission2_files 0"

type_synonym submission_tuple = "uuid \<times> uuid \<times> file_ref list"

type_synonym result_tuple = "uuid \<times> uuid \<times> real"

text \<open>
  The loops over \<open>j\<close> in \<open>range(i + 1, n)\<close> and over \<open>i\<close> in \<open>range(n)\<close>: the inner loop
  runs over the submissions behind the \<open>i\<close>-th one.
\<close>

fun submissions_j_loop ::
  "env \<Rightarrow> submission_tuple \<Rightarrow> submission_tuple list \<Rightarrow> result_tuple list
     \<Rightarrow> py_exception + result_tuple list" where
  "submissions_j_loop ev s1 [] results = Inr results"
| "submissions_j_loop ev (sub1_id, student1_id, files1) ((sub2_id, student2_id, files2) # rest) results =
     (if student1_id = student2_id
      then submissions_j_loop ev (sub1_id, student1_id, files1) rest results
      else if files1 = [] \<or> files2 = []
      then submissions_j_loop ev (sub1_id, student1_id, files1) rest results
      else case compare_all_files_in_submissions ev files1 files2 of
             Inl e \<Rightarrow> Inl e
           | Inr similarity \<Rightarrow>
               submissions_j_loop ev (sub1_id, student1_id, files1) rest
                 (if similarity > 0 then results @ [(sub1_id, sub2_id, similarity)] else results))"

fun submissions_i_loop ::
  "env \<Rightarrow> submission_tuple list \<Rightarrow> result_tuple list \<Rightarrow> py_exception + result_tuple list" where
  "submissions_i_loop ev [] results = Inr results"
| "submissions_i_loop ev (s1 # rest) results =
     (case submissions_j_loop ev s1 rest results of
        Inl e \<Rightarrow> Inl e
      | Inr results' \<Rightarrow> submissions_i_loop ev rest results')"

definition compare_all_submissions ::
  "env \<Rightarrow> submission_tuple list \<Rightarrow> py_exception + result_tuple list" where
  "compare_all_submissions ev submission_data = submissions_i_loop ev submission_data []"

section \<open>The stored matches and the background run (api/plagiarism.py)\<close>

text \<open>
  The tables of the database are lists of rows, with the columns the plagiarism service
  reads or writes. The columns \<open>id\<close> and \<open>checked_at\<close> of a match are generated by the
  database and left out. A query with \<open>filter\<close> is \<open>filter\<close> on the list, \<open>first()\<close> is
  \<open>find\<close>, \<open>delete()\<close> keeps the other rows and \<open>db.add\<close> appends a row.
\<close>

datatype user_role = STUDENT | TEACHER | MANAGER | ADMIN

datatype course_role = student | teacher

record user_row =
  user_id :: uuid
  full_name :: string
  role :: user_role

record course_enrollment_row =
  enrollment_user_id :: uuid
  enrollment_course_id :: uuid
  role_in_course :: course_role

record assignment_row =
  assignment_id :: uuid
  assignment_course_id :: uuid

record submission_file_row =
  file_id :: uuid
  file_path :: string

record submission_row =
  submission_id :: uuid
  submission_assignment_id :: uuid
  student_id :: uuid
  files :: "submission_file_row list"

record plagiarism_match =
  match_assignment_id :: uuid
  submission1_id :: uuid
  submission2_id :: uuid
  similarity_score :: real

record db =
  users :: "user_row list"
  course_enrollments :: "course_enrollment_row list"
  assignments :: "assignment_row list"
  submissions :: "submission_row list"
  plagiarism_matches :: "plagiarism_match list"

text \<open>
  \<open>upload_path file_path\<close> is \<open>str(Path(settings.UPLOAD_DIR) / file_path)\<close>; the upload
  directory is a setting of the deployment.
\<close>

record settings =
  upload_path :: "string \<Rightarrow> string"

text \<open>The files of one submission that exist on disk, as \<open>(file id, path)\<close> pairs.\<close>

definition valid_files :: "env \<Rightarrow> settings \<Rightarrow> submission_row \<Rightarrow> file_ref list" where
  "valid_files ev cfg submission =
     [(file_id file, upload_path cfg (file_path file)).
        file \<leftarrow> files submission, path_exists ev (upload_path cfg (file_path file))]"

text \<open>The loop that prepares \<open>submission_data\<close>: the submissions with a valid file.\<close>

definition prepare_submission_data ::
  "env \<Rightarrow> settings \<Rightarrow> submission_row list \<Rightarrow> submission_tuple list" where
  "prepare_submission_data ev cfg subs =
     [(submission_id submission, student_id submission, valid_files ev cfg submission).
        submission \<leftarrow> subs, files submission \<noteq> [], valid_files ev cfg submission \<noteq> []]"

text \<open>One pass of the loop that stores the results: the smaller id goes first.\<close>

fun new_match :: "uuid \<Rightarrow> result_tuple \<Rightarrow> plagiarism_match" where
  "new_match a (sub1_id, sub2_id, similarity) =
     (if sub1_id > sub2_id
      then \<lparr>match_assignment_id = a, submission1_id = sub2_id, submission2_id = sub1_id,
             similarity_score = similarity\<rparr>
      else \<lparr>match_assignment_id = a, submission1_id = sub1_id, submission2_id = sub2_id,
             similarity_score = similarity\<rparr>)"

definition run_plagiarism_check ::
  "env \<Rightarrow> settings \<Rightarrow> uuid \<Rightarrow> db \<Rightarrow> py_exception + db" where
  "run_plagiarism_check ev cfg a d =
     (let subs = filter (\<lambda>s. submission_assignment_id s = a) (submissions d)
      in if length subs < 2 then Inr d
         else
           let submission_data = prepare_submission_data ev cfg subs
           in if length submission_data < 2 then Inr d
              else case compare_all_submissions ev submission_data of
                     Inl e \<Rightarrow> Inl e
                   | Inr results \<Rightarrow>
                       Inr (d\<lparr>plagiarism_matches :=
                              filter (\<lambda>m. match_assignment_id m \<noteq> a) (plagiarism_matches d)
                              @ map (new_match a) results\<rparr>))"

section \<open>The report\<close>

datatype http_error = HTTP_404_NOT_FOUND | HTTP_403_FORBIDDEN

record match_response =
  response_assignment_id :: uuid
  response_submission1_id :: uuid
  response_submission2_id :: uuid
  response_similarity_score :: real
  student1 :: "uuid \<times> string"
  student2 :: "uuid \<times> string"

record plagiarism_report =
  report_assignment_id :: uuid
  total_submissions :: nat
  total_comparisons :: nat
  matches :: "match_response list"
  high_similarity_count :: nat
  medium_similarity_count :: nat

text \<open>The matches of an assignment, \<open>order_by(similarity_score.desc())\<close>.\<close>

definition all_matches_of :: "db \<Rightarrow> uuid \<Rightarrow> plagiarism_match list" where
  "all_matches_of d a =
     sort_key (\<lambda>m. - similarity_score m)
       (filter (\<lambda>m. match_assignment_id m = a) (plagiarism_matches d))"

text \<open>
  The body of the loop over the filtered matches: \<open>None\<close> is \<open>continue\<close>, taken when a
  submission or a student is not found.
\<close>

definition match_response_of :: "db \<Rightarrow> plagiarism_match \<Rightarrow> match_response option" where
  "match_response_of d m =
     (let sub1 = find (\<lambda>s. submission_id s = submission1_id m) (submissions d);
          sub2 = find (\<lambda>s. submission_id s = submission2_id m) (submissions d)
      in case (sub1, sub2) of
           (Some s1, Some s2) \<Rightarrow>
             (let student1 = find (\<lambda>u. user_id u = student_id s1) (users d);
                  student2 = find (\<lambda>u. user_id u = student_id s2) (users d)
              in case (student1, student2) of
                   (Some u1, Some u2) \<Rightarrow>
                     Some \<lparr>response_assignment_id = match_assignment_id m,
                           response_submission1_id = submission1_id m,
                           response_submission2_id = submission2_id m,
                           response_similarity_score = similarity_score m,
                           student1 = (user_id u1, full_name u1),
                           student2 = (user_id u2, full_name u2)\<rparr>
                 | _ \<Rightarrow> None)
         | _ \<Rightarrow> None)"

definition get_plagiarism_report ::
  "db \<Rightarrow> uuid \<Rightarrow> real \<Rightarrow> user_row \<Rightarrow> http_error + plagiarism_report" where
  "get_plagiarism_report d a threshold current_user =
     (case find (\<lambda>x. assignment_id x = a) (assignments d) of
        None \<Rightarrow> Inl HTTP_404_NOT_FOUND
      | Some assignment \<Rightarrow>
          if role current_user \<noteq> ADMIN \<and>
             find (\<lambda>e. enrollment_course_id e = assignment_course_id assignment \<and>
                        enrollment_user_id e = user_id current_user \<and>
                        role_in_course e = teacher) (course_enrollments d) = None
          then Inl HTTP_403_FORBIDDEN
          else
            let all_matches = all_matches_of d a;
                matches = filter (\<lambda>m. similarity_score m \<ge> threshold) all_matches;
                match_responses = List.map_filter (match_response_of d) matches;
                high_similarity = length (filter (\<lambda>m. similarity_score m > 70) all_matches);
                medium_similarity =
                  length (filter (\<lambda>m. 50 \<le> similarity_score m \<and> similarity_score m \<le> 70)
                            all_matches);
                total_submissions =
                  length (filter (\<lambda>s. submission_assignment_id s = a) (submissions d))
            in Inr \<lparr>report_assignment_id = a,
                     total_submissions = total_submissions,
                     total_comparisons = length all_matches,
                     matches = match_responses,
                     high_similarity_count = high_similarity,
                     medium_similarity_count = medium_similarity\<rparr>)"

section \<open>Auxiliary notions for the proofs\<close>

text \<open>
  The scores of all pairs of files of two submissions: the values that
  \<open>compare_submissions\<close> returns on the product of the two file lists.
\<close>

definition pair_scores :: "env \<Rightarrow> file_ref list \<Rightarrow> file_ref list \<Rightarrow> real set" where
  "pair_scores ev files1 files2 =
     (\<lambda>(f1, f2). projr (compare_submissions ev (snd f1) (snd f2))) ` (set files1 \<times> set files2)"

text \<open>
  What one pass of the inner loop of \<open>compare_all_submissions\<close> appends to \<open>results\<close>, and
  what the passes for all pairs append in turn.
\<close>

definition pair_result :: "env \<Rightarrow> submission_tuple \<Rightarrow> submission_tuple \<Rightarrow> result_tuple list" where
  "pair_result ev s1 s2 =
     (if fst (snd s1) \<noteq> fst (snd s2) \<and> snd (snd s1) \<noteq> [] \<and> snd (snd s2) \<noteq> [] \<and>
         0 < projr (compare_all_files_in_submissions ev (snd (snd s1)) (snd (snd s2)))
      then [(fst s1, fst s2,
             projr (compare_all_files_in_submissions ev (snd (snd s1)) (snd (snd s2))))]
      else [])"

fun pair_results_from :: "env \<Rightarrow> submission_tuple list \<Rightarrow> result_tuple list" where
  "pair_results_from ev [] = []"
| "pair_results_from ev (s1 # rest) =
     concat (map (pair_result ev s1) rest) @ pair_results_from ev rest"

text \<open>The pair of ids of a result, the smaller one first.\<close>

definition pair_key :: "result_tuple \<Rightarrow> uuid \<times> uuid" where
  "pair_key r = (min (fst r) (fst (snd r)), max (fst r) (fst (snd r)))"

text \<open>
  The spec's reading of PDF extraction, for comparison with \<open>extract_text_from_pdf\<close>:
  the texts of the pages whose extraction succeeds, joined with newlines.
\<close>

definition spec_pdf_text :: "(py_exception + string) list \<Rightarrow> string" where
  "spec_pdf_text pages = join newline (map projr (filter (\<lambda>page. \<not> isl page) pages))"

text \<open>
  A match of the report that cannot be annotated: one of its submissions, or the student
  of one of them, is not found.
\<close>

definition record_missing :: "db \<Rightarrow> plagiarism_match \<Rightarrow> bool" where
  "record_missing d m =
     (case find (\<lambda>s. submission_id s = submission1_id m) (submissions d) of
        None \<Rightarrow> True
      | Some s1 \<Rightarrow>
          (case find (\<lambda>s. submission_id s = submission2_id m) (submissions d) of
             None \<Rightarrow> True
           | Some s2 \<Rightarrow>
               find (\<lambda>u. user_id u = student_id s1) (users d) = None \<or>
               find (\<lambda>u. user_id u = student_id s2) (users d) = None))"

section \<open>Sample data\<close>

text \<open>An environment that holds plain text files only, all named \<open>*.txt\<close>.\<close>

definition text_files :: "(string \<times> string) list \<Rightarrow> env" where
  "text_files fs =
     \<lparr>path_exists = (\<lambda>p. map_of fs p \<noteq> None),
      path_suffix = (\<lambda>p. ''.txt''),
      open_read = (\<lambda>p. case map_of fs p of None \<Rightarrow> Inl OSError | Some t \<Rightarrow> Inr t),
      PyPDF2_installed = False,
      PdfReader = (\<lambda>p. Inl LibraryError),
      docx_installed = False,
      Document = (\<lambda>p. Inl LibraryError),
      openpyxl_installed = False,
      load_workbook = (\<lambda>p. Inl LibraryError)\<rparr>"

definition fox_text :: string where
  "fox_text = ''the quick brown fox jumps over the lazy dog near the river bank''"

definition other_text :: string where
  "other_text = ''completely different content here with nothing shared at all today''"

text \<open>Fifty characters, five of them letters.\<close>

definition padded_text :: string where
  "padded_text = ''hello!!!!!!!!!!!!!!!!!!!!!!!!!!!!!!!!!!!!!!!!!!!!!''"

definition short_text :: string where
  "short_text = ''the quick brown fox''"

definition sample_env :: env where
  "sample_env =
     text_files [(''uploads/s1.txt'', fox_text), (''uploads/s2.txt'', fox_text),
                 (''uploads/s3.txt'', other_text), (''uploads/p1.txt'', padded_text),
                 (''uploads/p2.txt'', padded_text), (''uploads/q1.txt'', short_text)]"

definition sample_settings :: settings where
  "sample_settings = \<lparr>upload_path = (\<lambda>p. ''uploads/'' @ p)\<rparr>"

text \<open>An environment with a three-page PDF whose second page cannot be read.\<close>

definition pdf_pages_sample :: "(py_exception + string) list" where
  "pdf_pages_sample = [Inr ''first page'', Inl LibraryError, Inr ''third page'']"

definition pdf_env :: env where
  "pdf_env =
     \<lparr>path_exists = (\<lambda>p. True),
      path_suffix = (\<lambda>p. ''.PDF''),
      open_read = (\<lambda>p. Inl OSError),
      PyPDF2_installed = True,
      PdfReader = (\<lambda>p. if p = ''good.PDF'' then Inr [Inr ''first page'', Inr ''second page'']
                          else if p = ''report.PDF'' then Inr pdf_pages_sample
                          else Inl LibraryError),
      docx_installed = False,
      Document = (\<lambda>p. Inl LibraryError),
      openpyxl_installed = False,
      load_workbook = (\<lambda>p. Inl LibraryError)\<rparr>"

text \<open>
  Assignment 7 with three submissions: the submissions 12 and 11 hold the same text, the
  submission 13 another one. The stored matches are those of an earlier run for
  assignment 7 and one of assignment 8.
\<close>

definition sample_db :: db where
  "sample_db =
     \<lparr>users = [\<lparr>user_id = 20, full_name = ''Ann'', role = STUDENT\<rparr>,
               \<lparr>user_id = 21, full_name = ''Bob'', role = STUDENT\<rparr>,
               \<lparr>user_id = 22, full_name = ''Cid'', role = STUDENT\<rparr>,
               \<lparr>user_id = 9, full_name = ''Root'', role = ADMIN\<rparr>],
      course_enrollments = [],
      assignments = [\<lparr>assignment_id = 7, assignment_course_id = 3\<rparr>],
      submissions =
        [\<lparr>submission_id = 12, submission_assignment_id = 7, student_id = 20,
          files = [\<lparr>file_id = 31, file_path = ''s1.txt''\<rparr>]\<rparr>,
         \<lparr>submission_id = 11, submission_assignment_id = 7, student_id = 21,
          files = [\<lparr>file_id = 32, file_path = ''s2.txt''\<rparr>]\<rparr>,
         \<lparr>submission_id = 13, submission_assignment_id = 7, student_id = 22,
          files = [\<lparr>file_id = 33, file_path = ''s3.txt''\<rparr>]\<rparr>],
      plagiarism_matches =
        [\<lparr>match_assignment_id = 7, submission1_id = 11, submission2_id = 13,
          similarity_score = 55\<rparr>,
         \<lparr>match_assignment_id = 8, submission1_id = 14, submission2_id = 15,
          similarity_score = 80\<rparr>]\<rparr>"

text \<open>
  The stored matches of assignment 7 with scores 90, 60 and 30, where the submission 19 of
  the first match has no row.
\<close>

definition report_db :: db where
  "report_db =
     sample_db\<lparr>plagiarism_matches :=
        [\<lparr>match_assignment_id = 7, submission1_id = 11, submission2_id = 19,
          similarity_score = 90\<rparr>,
         \<lparr>match_assignment_id = 7, submission1_id = 11, submission2_id = 12,
          similarity_score = 60\<rparr>,
         \<lparr>match_assignment_id = 7, submission1_id = 12, submission2_id = 13,
          similarity_score = 30\<rparr>]\<rparr>"

definition admin_user :: user_row where
  "admin_user = \<lparr>user_id = 9, full_name = ''Root'', role = ADMIN\<rparr>"

section \<open>Extraction never raises\<close>

lemma try_except_returns: "try_except body (\<lambda>e. Inr x) = Inr (case body of Inl e \<Rightarrow> x | Inr v \<Rightarrow> v)"
  by (simp add: try_except_def split: sum.splits)

lemma extract_text_from_pdf_returns: "\<exists>t. extract_text_from_pdf ev p = Inr t"
  by (simp add: extract_text_from_pdf_def try_except_returns)

lemma extract_text_from_docx_returns: "\<exists>t. extract_text_from_docx ev p = Inr t"
  by (simp add: extract_text_from_docx_def try_except_returns)

lemma extract_text_from_xlsx_returns: "\<exists>t. extract_text_from_xlsx ev p = Inr t"
  by (simp add: extract_text_from_xlsx_def try_except_returns)

lemma extract_text_from_file_returns: "\<exists>t. extract_text_from_file ev p = Inr t"
  by (simp add: extract_text_from_file_def try_except_returns Let_def)

lemma two_dim: "(p * q + x * y)\<^sup>2 \<le> (p\<^sup>2 + x\<^sup>2) * (q\<^sup>2 + y\<^sup>2)" for p q x y :: real
proof -
  have "(p\<^sup>2 + x\<^sup>2) * (q\<^sup>2 + y\<^sup>2) - (p * q + x * y)\<^sup>2 = (p * y - q * x)\<^sup>2"
    by (simp add: power2_eq_square algebra_simps)
  moreover have "0 \<le> (p * y - q * x)\<^sup>2" by simp
  ultimately show ?thesis by linarith
qed

lemma dot_le_magnitudes:
  fixes f g :: "'a \<Rightarrow> nat"
  shows "real (\<Sum>w\<leftarrow>ws. f w * g w) \<le> sqrt (real (\<Sum>w\<leftarrow>ws. f w * f w)) * sqrt (real (\<Sum>w\<leftarrow>ws. g w * g w))"
proof (induction ws)
  case Nil
  then show ?case by simp
next
  case (Cons w ws)
  define A where "A = real (\<Sum>w\<leftarrow>ws. f w * f w)"
  define B where "B = real (\<Sum>w\<leftarrow>ws. g w * g w)"
  define C where "C = real (\<Sum>w\<leftarrow>ws. f w * g w)"
  define x where "x = real (f w)"
  define y where "y = real (g w)"
  have nn: "0 \<le> A" "0 \<le> B" "0 \<le> x" "0 \<le> y" by (simp_all add: A_def B_def x_def y_def)
  have ih: "C \<le> sqrt A * sqrt B" using Cons.IH by (simp add: A_def B_def C_def)
  have sq: "(sqrt (A + x * x) * sqrt (B + y * y))\<^sup>2 = (A + x * x) * (B + y * y)"
    using nn by (simp add: power_mult_distrib)
  have "(sqrt A * sqrt B + x * y)\<^sup>2 \<le> ((sqrt A)\<^sup>2 + x\<^sup>2) * ((sqrt B)\<^sup>2 + y\<^sup>2)"
    by (rule two_dim)
  also have "\<dots> = (A + x * x) * (B + y * y)" using nn by (simp add: power2_eq_square)
  finally have "(sqrt A * sqrt B + x * y)\<^sup>2 \<le> (sqrt (A + x * x) * sqrt (B + y * y))\<^sup>2"
    by (simp only: sq)
  moreover have "0 \<le> sqrt (A + x * x) * sqrt (B + y * y)" using nn by simp
  ultimately have "sqrt A * sqrt B + x * y \<le> sqrt (A + x * x) * sqrt (B + y * y)"
    by (rule power2_le_imp_le)
  with ih have "C + x * y \<le> sqrt (x * x + A) * sqrt (y * y + B)" by (simp add: add.commute)
  then show ?case by (simp add: A_def B_def C_def x_def y_def)
qed

section \<open>Properties of the score\<close>

lemma round2_nonneg: "0 \<le> x \<Longrightarrow> 0 \<le> round2 x"
proof -
  assume "0 \<le> x"
  then have "0 \<le> \<lfloor>x * 100\<rfloor>" by simp
  then show ?thesis by (simp add: round2_def Let_def)
qed

lemma round2_le_100: assumes "x \<le> 100" shows "round2 x \<le> 100"
proof -
  have y: "x * 100 \<le> 10000" using assms by simp
  then have f: "\<lfloor>x * 100\<rfloor> \<le> 10000" by linarith
  show ?thesis
  proof (cases "\<lfloor>x * 100\<rfloor> = 10000")
    case True
    then have "x * 100 - of_int \<lfloor>x * 100\<rfloor> \<le> 0" using y by simp
    then show ?thesis using True by (simp add: round2_def Let_def)
  next
    case False
    then have "\<lfloor>x * 100\<rfloor> + 1 \<le> 10000" using f by linarith
    then have "real_of_int (\<lfloor>x * 100\<rfloor> + 1) \<le> 10000" by linarith
    then have "real_of_int \<lfloor>x * 100\<rfloor> \<le> 10000 \<and> real_of_int \<lfloor>x * 100\<rfloor> + 1 \<le> 10000"
      by simp
    then show ?thesis by (simp add: round2_def Let_def)
  qed
qed

lemma sum_list_all_words:
  "sum_list (map h (all_words tokens1 tokens2)) = sum h (set tokens1 \<union> set tokens2)"
  for h :: "string \<Rightarrow> nat"
  by (simp add: all_words_def sum_list_distinct_conv_sum_set)

lemma cosine_unfold:
  "calculate_cosine_similarity text1 text2 =
     (let tokens1 = tokenize (preprocess_text text1);
          tokens2 = tokenize (preprocess_text text2);
          S = set tokens1 \<union> set tokens2;
          D = (\<Sum>w\<in>S. count_list tokens1 w * count_list tokens2 w);
          A = (\<Sum>w\<in>S. count_list tokens1 w * count_list tokens1 w);
          B = (\<Sum>w\<in>S. count_list tokens2 w * count_list tokens2 w)
      in if tokens1 = [] \<or> tokens2 = [] then 0
         else if sqrt (real A) = 0 \<or> sqrt (real B) = 0 then 0
         else round2 (real D / (sqrt (real A) * sqrt (real B)) * 100))"
  by (simp only: calculate_cosine_similarity_def Let_def map2_map_map map_map o_def
        sum_list_all_words)

lemma cosine_symmetric:
  "calculate_cosine_similarity text1 text2 = calculate_cosine_similarity text2 text1"
  by (simp add: cosine_unfold Let_def Un_commute mult.commute disj_commute)

lemma cosine_nonneg: "0 \<le> calculate_cosine_similarity text1 text2"
  by (simp add: calculate_cosine_similarity_def Let_def round2_nonneg)

lemma cosine_le_100: "calculate_cosine_similarity text1 text2 \<le> 100"
proof -
  define ws where "ws = all_words (tokenize (preprocess_text text1)) (tokenize (preprocess_text text2))"
  define f where "f = count_list (tokenize (preprocess_text text1))"
  define g where "g = count_list (tokenize (preprocess_text text2))"
  define D where "D = real (\<Sum>w\<leftarrow>ws. f w * g w)"
  define M where "M = sqrt (real (\<Sum>w\<leftarrow>ws. f w * f w)) * sqrt (real (\<Sum>w\<leftarrow>ws. g w * g w))"
  have DM: "D \<le> M" unfolding D_def M_def by (rule dot_le_magnitudes)
  have M0: "0 \<le> M" unfolding M_def by simp
  have "D / M * 100 \<le> 100"
  proof (cases "M = 0")
    case True then show ?thesis by simp
  next
    case False
    with M0 have "0 < M" by simp
    then have "D / M \<le> 1" using DM by simp
    then have "D / M * 100 \<le> 1 * 100" by (rule mult_right_mono) simp
    then show ?thesis by (simp only: mult_1)
  qed
  then have r: "round2 (D / M * 100) \<le> 100" by (rule round2_le_100)
  have "calculate_cosine_similarity text1 text2 = 0 \<or>
        calculate_cosine_similarity text1 text2 = round2 (D / M * 100)"
    unfolding calculate_cosine_similarity_def Let_def D_def M_def ws_def f_def g_def
    by (simp add: map2_map_map o_def)
  with r show ?thesis by auto
qed

lemma compare_submissions_bounds:
  "\<exists>s. compare_submissions ev p1 p2 = Inr s \<and> 0 \<le> s \<and> s \<le> 100"
proof -
  obtain t1 where t1: "extract_text_from_file ev p1 = Inr t1"
    using extract_text_from_file_returns by blast
  obtain t2 where t2: "extract_text_from_file ev p2 = Inr t2"
    using extract_text_from_file_returns by blast
  show ?thesis
    by (simp add: compare_submissions_def t1 t2 cosine_nonneg cosine_le_100)
qed

lemma compare_submissions_Inr:
  "compare_submissions ev p1 p2 = Inr (projr (compare_submissions ev p1 p2))"
  using compare_submissions_bounds [of ev p1 p2] by auto

lemma pair_score_nonneg: "0 \<le> projr (compare_submissions ev p1 p2)"
  using compare_submissions_bounds [of ev p1 p2] by auto

lemma pair_score_le_100: "projr (compare_submissions ev p1 p2) \<le> 100"
  using compare_submissions_bounds [of ev p1 p2] by auto

lemma compare_submissions_symmetric:
  "compare_submissions ev p1 p2 = compare_submissions ev p2 p1"
proof -
  obtain t1 where t1: "extract_text_from_file ev p1 = Inr t1"
    using extract_text_from_file_returns by blast
  obtain t2 where t2: "extract_text_from_file ev p2 = Inr t2"
    using extract_text_from_file_returns by blast
  show ?thesis
    using cosine_symmetric [of t1 t2] by (auto simp: compare_submissions_def t1 t2)
qed

lemma files2_loop_Max:
  "files2_loop ev path1 files2 m =
     Inr (Max (insert m ((\<lambda>f. projr (compare_submissions ev path1 (snd f))) ` set files2)))"
proof (induction files2 arbitrary: m)
  case Nil
  then show ?case by simp
next
  case (Cons f files2)
  obtain file2_id path2 where f: "f = (file2_id, path2)" by (cases f)
  define X where "X = (\<lambda>f. projr (compare_submissions ev path1 (snd f))) ` set files2"
  define s where "s = projr (compare_submissions ev path1 path2)"
  have fin: "finite X" by (simp add: X_def)
  have cs: "compare_submissions ev path1 path2 = Inr s"
    unfolding s_def by (rule compare_submissions_Inr)
  have "Max (insert (if m < s then s else m) X) = Max (insert m (insert s X))"
  proof (cases "m < s")
    case True
    then have "Max (insert m (insert s X)) = max m (Max (insert s X))"
      using fin by simp
    also have "\<dots> = Max (insert s X)" using True fin
      by (simp add: max_def) (meson Max_ge finite_insert insertI1 less_le_not_le order_trans)
    finally show ?thesis using True by simp
  next
    case False
    then have "Max (insert m (insert s X)) = Max (insert s (insert m X))"
      by (simp add: insert_commute)
    also have "\<dots> = max s (Max (insert m X))" using fin by simp
    also have "\<dots> = Max (insert m X)" using False fin
      by (simp add: max_def) (meson Max_ge finite_insert insertI1 not_less order_trans)
    finally show ?thesis using False by simp
  qed
  moreover have "files2_loop ev path1 (f # files2) m = Inr (Max (insert (if m < s then s else m) X))"
    using Cons.IH [of "if m < s then s else m"] by (simp add: f cs X_def)
  moreover have "(\<lambda>f. projr (compare_submissions ev path1 (snd f))) ` set (f # files2) = insert s X"
    by (simp add: f X_def s_def)
  ultimately show ?case by simp
qed

lemma Max_insert_Max:
  fixes A Z :: "real set"
  assumes "finite A" "A \<noteq> {}" "finite Z"
  shows "Max (insert (Max A) Z) = Max (A \<union> Z)"
proof (cases "Z = {}")
  case True
  then show ?thesis by simp
next
  case False
  then show ?thesis using assms by (simp add: Max_Un)
qed

lemma pair_scores_Cons:
  "pair_scores ev (f # files1) files2 =
     (\<lambda>f2. projr (compare_submissions ev (snd f) (snd f2))) ` set files2 \<union> pair_scores ev files1 files2"
  by (auto simp: pair_scores_def)

lemma files1_loop_Max:
  "files1_loop ev files1 files2 m = Inr (Max (insert m (pair_scores ev files1 files2)))"
proof (induction files1 arbitrary: m)
  case Nil
  then show ?case by (simp add: pair_scores_def)
next
  case (Cons f files1)
  obtain file1_id path1 where f: "f = (file1_id, path1)" by (cases f)
  define Y where "Y = (\<lambda>f2. projr (compare_submissions ev path1 (snd f2))) ` set files2"
  define Z where "Z = pair_scores ev files1 files2"
  have fin: "finite Y" "finite Z" by (simp_all add: Y_def Z_def pair_scores_def)
  have "files1_loop ev (f # files1) files2 m = Inr (Max (insert (Max (insert m Y)) Z))"
    by (simp add: f files2_loop_Max Cons.IH Y_def Z_def)
  also have "Max (insert (Max (insert m Y)) Z) = Max (insert m Y \<union> Z)"
    using fin by (intro Max_insert_Max) simp_all
  also have "insert m Y \<union> Z = insert m (pair_scores ev (f # files1) files2)"
    by (simp add: pair_scores_Cons f Y_def Z_def)
  finally show ?case .
qed

lemma pair_scores_symmetric: "pair_scores ev files1 files2 = pair_scores ev files2 files1"
proof -
  have "\<And>a b. projr (compare_submissions ev (snd a) (snd b)) = projr (compare_submissions ev (snd b) (snd a))"
    by (simp add: compare_submissions_symmetric)
  then show ?thesis unfolding pair_scores_def by (auto simp: image_iff) force+
qed

lemma compare_all_files_Max:
  "compare_all_files_in_submissions ev files1 files2 = Inr (Max (insert 0 (pair_scores ev files1 files2)))"
  by (simp add: compare_all_files_in_submissions_def files1_loop_Max)

lemma compare_all_files_symmetric:
  "compare_all_files_in_submissions ev files1 files2 = compare_all_files_in_submissions ev files2 files1"
  by (simp add: compare_all_files_Max pair_scores_symmetric)

lemma pair_scores_as_set:
  "pair_scores ev files1 files2 =
     {s. \<exists>f1\<in>set files1. \<exists>f2\<in>set files2. compare_submissions ev (snd f1) (snd f2) = Inr s}"
proof -
  have "\<And>a b s. (compare_submissions ev a b = Inr s) = (s = projr (compare_submissions ev a b))"
    using compare_submissions_Inr by (metis sum.sel(2))
  then show ?thesis unfolding pair_scores_def by (auto simp: image_iff)
qed

lemma compare_all_files_is_Max:
  assumes "files1 \<noteq> []" "files2 \<noteq> []"
  shows "compare_all_files_in_submissions ev files1 files2 =
     Inr (Max {s. \<exists>f1\<in>set files1. \<exists>f2\<in>set files2. compare_submissions ev (snd f1) (snd f2) = Inr s})"
proof -
  define X where "X = pair_scores ev files1 files2"
  have fin: "finite X" by (simp add: X_def pair_scores_def)
  have ne: "X \<noteq> {}" using assms by (simp add: X_def pair_scores_def)
  have nn: "\<forall>x\<in>X. 0 \<le> x" by (auto simp: X_def pair_scores_def pair_score_nonneg)
  have "0 \<le> Max X" using fin ne nn by (meson Max_in)
  then have "Max (insert 0 X) = Max X" using fin ne by (simp add: max_def)
  then show ?thesis by (simp add: compare_all_files_Max pair_scores_as_set [symmetric] X_def)
qed

lemma files_score_bounds:
  "\<exists>s. compare_all_files_in_submissions ev files1 files2 = Inr s \<and> 0 \<le> s \<and> s \<le> 100"
proof -
  define X where "X = insert 0 (pair_scores ev files1 files2)"
  have fin: "finite X" and ne: "X \<noteq> {}" by (simp_all add: X_def pair_scores_def)
  have "\<forall>x\<in>X. 0 \<le> x \<and> x \<le> 100"
    by (auto simp: X_def pair_scores_def pair_score_nonneg pair_score_le_100)
  moreover have "Max X \<in> X" using fin ne by (rule Max_in)
  ultimately have "0 \<le> Max X \<and> Max X \<le> 100" by blast
  then show ?thesis by (simp add: compare_all_files_Max X_def)
qed

section \<open>The loops over the submissions\<close>

lemma compare_all_files_Inr:
  "compare_all_files_in_submissions ev files1 files2 =
     Inr (projr (compare_all_files_in_submissions ev files1 files2))"
  using files_score_bounds [of ev files1 files2] by auto

lemma submissions_j_loop_step:
  "submissions_j_loop ev s1 (s2 # rest) results =
     submissions_j_loop ev s1 rest (results @ pair_result ev s1 s2)"
proof -
  obtain sub1_id student1_id files1 where s1: "s1 = (sub1_id, student1_id, files1)"
    by (cases s1)
  obtain sub2_id student2_id files2 where s2: "s2 = (sub2_id, student2_id, files2)"
    by (cases s2)
  obtain sim where sim: "compare_all_files_in_submissions ev files1 files2 = Inr sim"
    using files_score_bounds by blast
  show ?thesis
    by (simp add: s1 s2 sim pair_result_def)
qed

lemma submissions_j_loop_eq:
  "submissions_j_loop ev s1 rest results = Inr (results @ concat (map (pair_result ev s1) rest))"
proof (induction rest arbitrary: results)
  case Nil
  show ?case by (cases s1) simp
next
  case (Cons s2 rest)
  show ?case by (simp only: submissions_j_loop_step Cons.IH) simp
qed

lemma submissions_i_loop_eq:
  "submissions_i_loop ev subs results = Inr (results @ pair_results_from ev subs)"
  by (induction subs arbitrary: results) (simp_all add: submissions_j_loop_eq)

lemma pair_results_from_index:
  "pair_results_from ev subs =
     concat (map (\<lambda>i. concat (map (\<lambda>j. pair_result ev (subs ! i) (subs ! j))
                                  [Suc i..<length subs])) [0..<length subs])"
proof (induction subs)
  case Nil
  then show ?case by simp
next
  case (Cons s subs)
  have inner0: "map (\<lambda>j. pair_result ev ((s # subs) ! 0) ((s # subs) ! j)) [Suc 0..<length (s # subs)]
      = map (pair_result ev s) subs"
  proof -
    have "[Suc 0..<length (s # subs)] = map Suc [0..<length subs]"
      by (simp add: map_Suc_upt)
    then have "map (\<lambda>j. pair_result ev ((s # subs) ! 0) ((s # subs) ! j)) [Suc 0..<length (s # subs)]
        = map (\<lambda>j. pair_result ev s (subs ! j)) [0..<length subs]"
      by (simp add: o_def)
    also have "\<dots> = map (pair_result ev s) (map (\<lambda>j. subs ! j) [0..<length subs])"
      by (simp add: o_def)
    also have "map (\<lambda>j. subs ! j) [0..<length subs] = subs" by (rule map_nth)
    finally show ?thesis .
  qed
  have rest: "map (\<lambda>i. concat (map (\<lambda>j. pair_result ev ((s # subs) ! i) ((s # subs) ! j))
                                  [Suc i..<length (s # subs)])) (map Suc [0..<length subs])
      = map (\<lambda>i. concat (map (\<lambda>j. pair_result ev (subs ! i) (subs ! j))
                                  [Suc i..<length subs])) [0..<length subs]"
  proof -
    have "\<And>i. map (\<lambda>j. pair_result ev ((s # subs) ! Suc i) ((s # subs) ! j)) [Suc (Suc i)..<Suc (length subs)]
        = map (\<lambda>j. pair_result ev (subs ! i) (subs ! j)) [Suc i..<length subs]"
    proof -
      fix i
      have "[Suc (Suc i)..<Suc (length subs)] = map Suc [Suc i..<length subs]"
        by (simp add: map_Suc_upt)
      then show "map (\<lambda>j. pair_result ev ((s # subs) ! Suc i) ((s # subs) ! j)) [Suc (Suc i)..<Suc (length subs)]
        = map (\<lambda>j. pair_result ev (subs ! i) (subs ! j)) [Suc i..<length subs]"
        by (simp add: o_def)
    qed
    then show ?thesis by (simp add: o_def)
  qed
  have "[0..<Suc (length subs)] = 0 # [Suc 0..<Suc (length subs)]"
    by (rule upt_conv_Cons) simp
  then have split: "[0..<length (s # subs)] = 0 # map Suc [0..<length subs]"
    by (simp only: map_Suc_upt list.size) simp
  show ?case
    unfolding split by (simp only: list.map concat.simps inner0 rest pair_results_from.simps Cons.IH)
qed

lemma compare_all_submissions_index:
  "compare_all_submissions ev subs =
     Inr [(fst (subs ! i), fst (subs ! j),
           projr (compare_all_files_in_submissions ev (snd (snd (subs ! i))) (snd (snd (subs ! j))))).
          i \<leftarrow> [0..<length subs], j \<leftarrow> [Suc i..<length subs],
          fst (snd (subs ! i)) \<noteq> fst (snd (subs ! j)),
          snd (snd (subs ! i)) \<noteq> [] \<and> snd (snd (subs ! j)) \<noteq> [],
          0 < projr (compare_all_files_in_submissions ev (snd (snd (subs ! i))) (snd (snd (subs ! j))))]"
proof -
  have "compare_all_submissions ev subs = Inr (pair_results_from ev subs)"
    by (simp add: compare_all_submissions_def submissions_i_loop_eq)
  also have "pair_results_from ev subs =
     concat (map (\<lambda>i. concat (map (\<lambda>j. pair_result ev (subs ! i) (subs ! j))
                                  [Suc i..<length subs])) [0..<length subs])"
    by (rule pair_results_from_index)
  also have "\<dots> = [(fst (subs ! i), fst (subs ! j),
           projr (compare_all_files_in_submissions ev (snd (snd (subs ! i))) (snd (snd (subs ! j))))).
          i \<leftarrow> [0..<length subs], j \<leftarrow> [Suc i..<length subs],
          fst (snd (subs ! i)) \<noteq> fst (snd (subs ! j)),
          snd (snd (subs ! i)) \<noteq> [] \<and> snd (snd (subs ! j)) \<noteq> [],
          0 < projr (compare_all_files_in_submissions ev (snd (snd (subs ! i))) (snd (snd (subs ! j))))]"
    by (intro arg_cong [where f = concat] map_cong refl) (simp add: pair_result_def)
  finally show ?thesis .
qed

section \<open>The sample data evaluated\<close>

lemmas text_simps = preprocess_text_def strip_def remove_special_def lower_def lower_char_def
  is_space_def is_alnum_lower_def

lemma tokens_fox: "tokenize (preprocess_text fox_text) =
  [''the'', ''quick'', ''brown'', ''fox'', ''jumps'', ''over'', ''the'', ''lazy'', ''dog'', ''near'', ''the'', ''river'', ''bank'']"
  by (simp add: fox_text_def text_simps)

lemma tokens_other: "tokenize (preprocess_text other_text) =
  [''completely'', ''different'', ''content'', ''here'', ''with'', ''nothing'', ''shared'', ''at'', ''all'', ''today'']"
  by (simp add: other_text_def text_simps)

lemma tokens_padded: "tokenize (preprocess_text padded_text) = [''hello'']"
  by (simp add: padded_text_def text_simps)

lemma cosine_fox_fox: "calculate_cosine_similarity fox_text fox_text = 100"
  by (simp add: calculate_cosine_similarity_def tokens_fox all_words_def round2_def)

lemma cosine_fox_other: "calculate_cosine_similarity fox_text other_text = 0"
  by (simp add: calculate_cosine_similarity_def tokens_fox tokens_other all_words_def round2_def)

lemma cosine_padded: "calculate_cosine_similarity padded_text padded_text = 100"
  by (simp add: calculate_cosine_similarity_def tokens_padded all_words_def round2_def)

lemma length_padded: "length (preprocess_text padded_text) = 5"
  by (simp add: padded_text_def text_simps)

lemma pdf_pages_loop_fails:
  "list_ex isl pages \<Longrightarrow> isl (pdf_pages_loop pages t)"
  by (induction pages arbitrary: t) (auto split: sum.splits)

lemma pdf_pages_loop_succeeds:
  "\<not> list_ex isl pages \<Longrightarrow>
     pdf_pages_loop pages t = Inr (t @ concat (map (\<lambda>page. projr page @ newline) pages))"
  by (induction pages arbitrary: t) (auto split: sum.splits)

lemma extract_text_from_pdf_eq:
  assumes "PyPDF2_installed ev" and "PdfReader ev path = Inr pages"
  shows "extract_text_from_pdf ev path =
     Inr (if list_ex isl pages then []
          else concat (map (\<lambda>page. projr page @ newline) pages))"
proof (cases "list_ex isl pages")
  case True
  then have "isl (pdf_pages_loop pages [])" by (rule pdf_pages_loop_fails)
  then obtain e where "pdf_pages_loop pages [] = Inl e" by (cases "pdf_pages_loop pages []") auto
  then show ?thesis using assms True
    by (simp add: extract_text_from_pdf_def try_except_def)
next
  case False
  then show ?thesis using assms
    by (simp add: extract_text_from_pdf_def try_except_def pdf_pages_loop_succeeds)
qed

lemma lower_txt: "lower ''.txt'' = ''.txt''"
  by (simp add: lower_def lower_char_def)

lemma lower_PDF: "lower ''.PDF'' = ''.pdf''"
  by code_simp


lemma sample_texts:
  "extract_text_from_file sample_env ''uploads/s1.txt'' = Inr fox_text"
  "extract_text_from_file sample_env ''uploads/s2.txt'' = Inr fox_text"
  "extract_text_from_file sample_env ''uploads/s3.txt'' = Inr other_text"
  "extract_text_from_file sample_env ''uploads/p1.txt'' = Inr padded_text"
  "extract_text_from_file sample_env ''uploads/p2.txt'' = Inr padded_text"
  "extract_text_from_file sample_env ''uploads/q1.txt'' = Inr short_text"
  by (simp_all add: extract_text_from_file_def sample_env_def text_files_def lower_txt
      try_except_def)

lemma sample_lengths:
  "length fox_text = 63" "length other_text = 66" "length padded_text = 50"
  "length short_text = 19"
  by (simp_all add: fox_text_def other_text_def padded_text_def short_text_def)

lemma sample_scores:
  "compare_submissions sample_env ''uploads/s1.txt'' ''uploads/s2.txt'' = Inr 100"
  "compare_submissions sample_env ''uploads/s1.txt'' ''uploads/s3.txt'' = Inr 0"
  "compare_submissions sample_env ''uploads/s2.txt'' ''uploads/s3.txt'' = Inr 0"
  "compare_submissions sample_env ''uploads/s1.txt'' ''uploads/q1.txt'' = Inr 0"
  "compare_submissions sample_env ''uploads/s3.txt'' ''uploads/s2.txt'' = Inr 0"
  "compare_submissions sample_env ''uploads/s3.txt'' ''uploads/q1.txt'' = Inr 0"
  "compare_submissions sample_env ''uploads/p1.txt'' ''uploads/p2.txt'' = Inr 100"
  by (simp_all add: compare_submissions_def sample_texts sample_lengths cosine_fox_fox
      cosine_fox_other cosine_padded cosine_symmetric [of other_text fox_text])

lemma sample_score_same_file:
  "compare_submissions sample_env ''uploads/s2.txt'' ''uploads/s2.txt'' = Inr 100"
  by (simp add: compare_submissions_def sample_texts sample_lengths cosine_fox_fox)

section \<open>The background run\<close>

lemma new_match_fields:
  "match_assignment_id (new_match a r) = a"
  "(submission1_id (new_match a r), submission2_id (new_match a r)) = pair_key r"
  "similarity_score (new_match a r) = snd (snd r)"
  by (cases r; simp add: pair_key_def min_def max_def)+






lemma compare_all_submissions_from:
  "compare_all_submissions ev subs = Inr (pair_results_from ev subs)"
  by (simp add: compare_all_submissions_def submissions_i_loop_eq)


lemma run_cases:
  fixes ev cfg a d
  defines "data \<equiv> prepare_submission_data ev cfg
                     (filter (\<lambda>s. submission_assignment_id s = a) (submissions d))"
  shows "length data < 2 \<Longrightarrow> run_plagiarism_check ev cfg a d = Inr d"
    and "2 \<le> length data \<Longrightarrow>
           run_plagiarism_check ev cfg a d =
             Inr (d\<lparr>plagiarism_matches :=
                      filter (\<lambda>m. match_assignment_id m \<noteq> a) (plagiarism_matches d)
                      @ map (new_match a) (pair_results_from ev data)\<rparr>)"
proof -
  have le: "length data \<le> length (filter (\<lambda>s. submission_assignment_id s = a) (submissions d))"
  proof -
    have "\<And>subs. length (prepare_submission_data ev cfg subs) \<le> length subs"
    proof -
      fix subs
      show "length (prepare_submission_data ev cfg subs) \<le> length subs"
        unfolding prepare_submission_data_def by (induction subs) auto
    qed
    then show ?thesis by (simp add: data_def)
  qed
  show "length data < 2 \<Longrightarrow> run_plagiarism_check ev cfg a d = Inr d"
    by (simp add: run_plagiarism_check_def Let_def data_def)
  show "2 \<le> length data \<Longrightarrow>
           run_plagiarism_check ev cfg a d =
             Inr (d\<lparr>plagiarism_matches :=
                      filter (\<lambda>m. match_assignment_id m \<noteq> a) (plagiarism_matches d)
                      @ map (new_match a) (pair_results_from ev data)\<rparr>)"
    using le
    by (simp add: run_plagiarism_check_def Let_def data_def [symmetric]
        compare_all_submissions_from)
qed


section \<open>The report\<close>

lemma length_filter_all_matches_of:
  "length (filter P (all_matches_of d a)) =
     length (filter (\<lambda>m. match_assignment_id m = a \<and> P m) (plagiarism_matches d))"
proof -
  have "filter P (all_matches_of d a) =
      sort_key (\<lambda>m. - similarity_score m)
        (filter P (filter (\<lambda>m. match_assignment_id m = a) (plagiarism_matches d)))"
    by (simp only: all_matches_of_def filter_sort)
  then show ?thesis by (simp add: conj_commute)
qed

lemma length_all_matches_of:
  "length (all_matches_of d a) =
     length (filter (\<lambda>m. match_assignment_id m = a) (plagiarism_matches d))"
  by (simp add: all_matches_of_def)

lemma set_all_matches_of:
  "set (all_matches_of d a) = {m \<in> set (plagiarism_matches d). match_assignment_id m = a}"
  by (simp add: all_matches_of_def)

lemma match_response_of_None: "(match_response_of d m = None) = record_missing d m"
  by (simp add: match_response_of_def record_missing_def Let_def split: option.splits)

lemma match_response_of_Some:
  "match_response_of d m = Some e \<Longrightarrow>
     response_assignment_id e = match_assignment_id m \<and>
     response_submission1_id e = submission1_id m \<and>
     response_submission2_id e = submission2_id m \<and>
     response_similarity_score e = similarity_score m"
  by (auto simp: match_response_of_def Let_def split: option.splits)

lemma record_missing_cong:
  "submission1_id x = submission1_id m \<Longrightarrow> submission2_id x = submission2_id m \<Longrightarrow>
     record_missing d x = record_missing d m"
  by (simp add: record_missing_def split: option.splits)

lemma map_filter_fields:
  "map (\<lambda>e. (response_submission1_id e, response_submission2_id e, response_similarity_score e))
       (List.map_filter (match_response_of d) ms) =
   map (\<lambda>m. (submission1_id m, submission2_id m, similarity_score m))
       (filter (\<lambda>m. \<not> record_missing d m) ms)"
proof (induction ms)
  case Nil
  then show ?case by (simp add: List.map_filter_simps)
next
  case (Cons m ms)
  show ?case
  proof (cases "match_response_of d m")
    case None
    then have "record_missing d m" by (simp add: match_response_of_None)
    then show ?thesis using None Cons.IH by (simp add: List.map_filter_simps)
  next
    case (Some e)
    then have "\<not> record_missing d m" using match_response_of_None [of d m] by simp
    then show ?thesis using Some Cons.IH match_response_of_Some [OF Some]
      by (simp add: List.map_filter_simps)
  qed
qed

lemma get_plagiarism_report_Inr:
  assumes "get_plagiarism_report d a threshold current_user = Inr r"
  shows "r = \<lparr>report_assignment_id = a,
               total_submissions = length (filter (\<lambda>s. submission_assignment_id s = a) (submissions d)),
               total_comparisons = length (all_matches_of d a),
               matches = List.map_filter (match_response_of d)
                           (filter (\<lambda>m. threshold \<le> similarity_score m) (all_matches_of d a)),
               high_similarity_count = length (filter (\<lambda>m. 70 < similarity_score m) (all_matches_of d a)),
               medium_similarity_count =
                 length (filter (\<lambda>m. 50 \<le> similarity_score m \<and> similarity_score m \<le> 70)
                           (all_matches_of d a))\<rparr>"
  using assms by (simp add: get_plagiarism_report_def Let_def split: option.splits if_splits)

lemma report_fields:
  assumes "get_plagiarism_report d a threshold current_user = Inr r"
  shows "total_comparisons r =
           length (filter (\<lambda>m. match_assignment_id m = a) (plagiarism_matches d))"
    and "high_similarity_count r =
           length (filter (\<lambda>m. match_assignment_id m = a \<and> 70 < similarity_score m)
                     (plagiarism_matches d))"
    and "medium_similarity_count r =
           length (filter (\<lambda>m. match_assignment_id m = a \<and>
                                 (50 \<le> similarity_score m \<and> similarity_score m \<le> 70))
                     (plagiarism_matches d))"
    and "map (\<lambda>e. (response_submission1_id e, response_submission2_id e, response_similarity_score e))
           (matches r) =
         map (\<lambda>m. (submission1_id m, submission2_id m, similarity_score m))
           (filter (\<lambda>m. threshold \<le> similarity_score m \<and> \<not> record_missing d m)
              (all_matches_of d a))"
  by (simp_all add: get_plagiarism_report_Inr [OF assms] length_all_matches_of
      length_filter_all_matches_of map_filter_fields conj_commute)

lemma report_omits:
  assumes "get_plagiarism_report d a threshold current_user = Inr r"
    and "record_missing d m" and "e \<in> set (matches r)"
  shows "(response_submission1_id e, response_submission2_id e) \<noteq> (submission1_id m, submission2_id m)"
proof
  assume eq: "(response_submission1_id e, response_submission2_id e) = (submission1_id m, submission2_id m)"
  from assms(3) obtain x where x: "match_response_of d x = Some e"
    by (auto simp: get_plagiarism_report_Inr [OF assms(1)] List.map_filter_def)
  then have "\<not> record_missing d x" using match_response_of_None [of d x] by simp
  moreover have "record_missing d x = record_missing d m"
    using match_response_of_Some [OF x] eq by (intro record_missing_cong) simp_all
  ultimately show False using assms(2) by simp
qed

lemma report_shorter:
  assumes "get_plagiarism_report d a threshold current_user = Inr r"
    and "m \<in> set (plagiarism_matches d)" and "match_assignment_id m = a"
    and "record_missing d m" and "threshold \<le> similarity_score m"
  shows "length (matches r) <
     length (filter (\<lambda>x. match_assignment_id x = a \<and> threshold \<le> similarity_score x)
               (plagiarism_matches d))"
proof -
  define F where "F = filter (\<lambda>m. threshold \<le> similarity_score m) (all_matches_of d a)"
  have mF: "m \<in> set F" using assms by (simp add: F_def set_all_matches_of)
  have "length (matches r) = length (filter (\<lambda>x. match_response_of d x \<noteq> None) F)"
    by (simp add: get_plagiarism_report_Inr [OF assms(1)] List.map_filter_def F_def)
  also have "\<dots> < length F"
    using mF assms(4) by (intro length_filter_less [of m]) (simp_all add: match_response_of_None)
  also have "length F = length (filter (\<lambda>x. match_assignment_id x = a \<and> threshold \<le> similarity_score x)
               (plagiarism_matches d))"
    by (simp add: F_def length_filter_all_matches_of)
  finally show ?thesis .
qed

section \<open>The sample database evaluated\<close>

lemma sample_data:
  "prepare_submission_data sample_env sample_settings
     (filter (\<lambda>s. submission_assignment_id s = 7) (submissions sample_db)) =
   [(12, 20, [(31, ''uploads/s1.txt'')]), (11, 21, [(32, ''uploads/s2.txt'')]),
    (13, 22, [(33, ''uploads/s3.txt'')])]"
  by (simp add: prepare_submission_data_def valid_files_def sample_db_def sample_env_def
      sample_settings_def text_files_def)

lemma sample_results:
  "compare_all_submissions sample_env
     [(12, 20, [(31, ''uploads/s1.txt'')]), (11, 21, [(32, ''uploads/s2.txt'')]),
      (13, 22, [(33, ''uploads/s3.txt'')])] = Inr [(12, 11, 100)]"
  by (simp add: compare_all_submissions_def compare_all_files_in_submissions_def sample_scores)

lemma sample_no_files:
  "prepare_submission_data (text_files []) sample_settings
     (filter (\<lambda>s. submission_assignment_id s = 7) (submissions sample_db)) = []"
  by (simp add: prepare_submission_data_def valid_files_def sample_db_def
      sample_settings_def text_files_def)


lemma sample_run:
  "run_plagiarism_check sample_env sample_settings 7 sample_db =
     Inr (sample_db\<lparr>plagiarism_matches :=
            [\<lparr>match_assignment_id = 8, submission1_id = 14, submission2_id = 15,
              similarity_score = 80\<rparr>,
             \<lparr>match_assignment_id = 7, submission1_id = 11, submission2_id = 12,
              similarity_score = 100\<rparr>]\<rparr>)"
proof -
  have "length (filter (\<lambda>s. submission_assignment_id s = 7) (submissions sample_db)) = 3"
    by (simp add: sample_db_def)
  then show ?thesis
    by (simp add: run_plagiarism_check_def Let_def sample_data sample_results)
      (simp add: sample_db_def)
qed

lemma sample_run_no_files:
  "run_plagiarism_check (text_files []) sample_settings 7 sample_db = Inr sample_db"
  by (simp add: run_plagiarism_check_def Let_def sample_no_files)

lemmas report_db_simps = report_db_def sample_db_def admin_user_def get_plagiarism_report_def
  all_matches_of_def match_response_of_def List.map_filter_simps Let_def


lemma report_db_threshold_50:
  "get_plagiarism_report report_db 7 50 admin_user =
     Inr \<lparr>report_assignment_id = 7, total_submissions = 3, total_comparisons = 3,
           matches = [\<lparr>response_assignment_id = 7, response_submission1_id = 11,
                       response_submission2_id = 12, response_similarity_score = 60,
                       student1 = (21, ''Bob''), student2 = (20, ''Ann'')\<rparr>],
           high_similarity_count = 1, medium_similarity_count = 1\<rparr>"
  by (simp add: report_db_simps)


lemma report_db_missing:
  "record_missing report_db
     \<lparr>match_assignment_id = 7, submission1_id = 11, submission2_id = 19, similarity_score = 90\<rparr>"
  by (simp add: record_missing_def report_db_def sample_db_def)

section \<open>Claims on text extraction\<close>

text \<open>
  C8: \<open>extract_text_from_file\<close> never raises. For every environment and every path it
  returns a text; and it returns the empty text when the file is missing, when the
  library of the file's format is not installed or raises on the file, when the
  extraction of a page of a PDF raises, and when reading the file as text raises.
\<close>

theorem extract_text_from_file_never_raises:
  "(\<exists>text. extract_text_from_file ev path = Inr text) \<and>
   (\<not> path_exists ev path \<longrightarrow> extract_text_from_file ev path = Inr []) \<and>
   (lower (path_suffix ev path) = ''.pdf'' \<and>
      (\<not> PyPDF2_installed ev \<or> isl (PdfReader ev path) \<or>
       (\<exists>pages. PdfReader ev path = Inr pages \<and> list_ex isl pages))
    \<longrightarrow> extract_text_from_file ev path = Inr []) \<and>
   (lower (path_suffix ev path) \<in> {''.docx'', ''.doc''} \<and>
      (\<not> docx_installed ev \<or> isl (Document ev path))
    \<longrightarrow> extract_text_from_file ev path = Inr []) \<and>
   (lower (path_suffix ev path) \<in> {''.xlsx'', ''.xls''} \<and>
      (\<not> openpyxl_installed ev \<or> isl (load_workbook ev path))
    \<longrightarrow> extract_text_from_file ev path = Inr []) \<and>
   (lower (path_suffix ev path) \<notin> {''.pdf'', ''.docx'', ''.doc'', ''.xlsx'', ''.xls''} \<and>
      isl (open_read ev path)
    \<longrightarrow> extract_text_from_file ev path = Inr [])"
proof (intro conjI impI)
  show "\<exists>text. extract_text_from_file ev path = Inr text"
    by (rule extract_text_from_file_returns)
next
  assume "\<not> path_exists ev path"
  then show "extract_text_from_file ev path = Inr []"
    by (simp add: extract_text_from_file_def)
next
  assume a: "lower (path_suffix ev path) = ''.pdf'' \<and>
      (\<not> PyPDF2_installed ev \<or> isl (PdfReader ev path) \<or>
       (\<exists>pages. PdfReader ev path = Inr pages \<and> list_ex isl pages))"
  have "extract_text_from_pdf ev path = Inr []"
  proof (cases "PyPDF2_installed ev")
    case False
    then show ?thesis by (simp add: extract_text_from_pdf_def try_except_def)
  next
    case True
    show ?thesis
    proof (cases "PdfReader ev path")
      case (Inl e)
      then show ?thesis using True by (simp add: extract_text_from_pdf_def try_except_def)
    next
      case (Inr pages)
      with a True have "list_ex isl pages" by auto
      then show ?thesis using extract_text_from_pdf_eq [OF True Inr] by simp
    qed
  qed
  then show "extract_text_from_file ev path = Inr []"
    using a by (simp add: extract_text_from_file_def try_except_def Let_def)
next
  assume a: "lower (path_suffix ev path) \<in> {''.docx'', ''.doc''} \<and>
      (\<not> docx_installed ev \<or> isl (Document ev path))"
  then have "extract_text_from_docx ev path = Inr []"
    by (auto simp: extract_text_from_docx_def try_except_def split: sum.splits)
  then show "extract_text_from_file ev path = Inr []"
    using a by (auto simp: extract_text_from_file_def try_except_def Let_def)
next
  assume a: "lower (path_suffix ev path) \<in> {''.xlsx'', ''.xls''} \<and>
      (\<not> openpyxl_installed ev \<or> isl (load_workbook ev path))"
  then have "extract_text_from_xlsx ev path = Inr []"
    by (auto simp: extract_text_from_xlsx_def try_except_def split: sum.splits)
  then show "extract_text_from_file ev path = Inr []"
    using a by (auto simp: extract_text_from_file_def try_except_def Let_def)
next
  assume a: "lower (path_suffix ev path) \<notin> {''.pdf'', ''.docx'', ''.doc'', ''.xlsx'', ''.xls''} \<and>
      isl (open_read ev path)"
  then show "extract_text_from_file ev path = Inr []"
    by (auto simp: extract_text_from_file_def try_except_def Let_def split: sum.splits)
qed

text \<open>
  C8 on the sample data: a missing text file, a PDF with a page that cannot be read and a
  PDF that the reader rejects all give the empty text.
\<close>

theorem extract_text_from_file_never_raises_witness:
  "\<not> path_exists sample_env ''uploads/gone.txt'' \<and>
   extract_text_from_file sample_env ''uploads/gone.txt'' = Inr [] \<and>
   lower (path_suffix pdf_env ''report.PDF'') = ''.pdf'' \<and>
   PdfReader pdf_env ''report.PDF'' = Inr pdf_pages_sample \<and> list_ex isl pdf_pages_sample \<and>
   extract_text_from_file pdf_env ''report.PDF'' = Inr [] \<and>
   isl (PdfReader pdf_env ''broken.PDF'') \<and>
   extract_text_from_file pdf_env ''broken.PDF'' = Inr []"
proof -
  have a: "\<not> path_exists sample_env ''uploads/gone.txt''"
    by (simp add: sample_env_def text_files_def)
  have b: "lower (path_suffix pdf_env ''report.PDF'') = ''.pdf''"
       "lower (path_suffix pdf_env ''broken.PDF'') = ''.pdf''"
    by (simp_all add: pdf_env_def lower_PDF)
  have c: "PdfReader pdf_env ''report.PDF'' = Inr pdf_pages_sample"
    by (simp add: pdf_env_def)
  have d: "list_ex isl pdf_pages_sample" by (simp add: pdf_pages_sample_def)
  have e: "isl (PdfReader pdf_env ''broken.PDF'')" by (simp add: pdf_env_def)
  show ?thesis
    using a b c d e
      extract_text_from_file_never_raises [of sample_env "''uploads/gone.txt''"]
      extract_text_from_file_never_raises [of pdf_env "''report.PDF''"]
      extract_text_from_file_never_raises [of pdf_env "''broken.PDF''"]
    by simp
qed


text \<open>
  C9, as amended: for a PDF that PyPDF2 opens, extraction yields the texts of the pages,
  each followed by a newline, when every page can be read; when the extraction of any
  page raises, it yields the empty text and the text of the other pages is lost.
\<close>

theorem extract_text_from_pdf_pages:
  assumes "PyPDF2_installed ev" and "PdfReader ev path = Inr pages"
  shows "extract_text_from_pdf ev path =
     Inr (if list_ex isl pages then []
          else concat (map (\<lambda>page. projr page @ newline) pages))"
  using assms by (rule extract_text_from_pdf_eq)

text \<open>C9 as amended, on a PDF with two good pages and on one with a page that fails.\<close>

theorem extract_text_from_pdf_pages_witness:
  "PyPDF2_installed pdf_env \<and>
   PdfReader pdf_env ''good.PDF'' = Inr [Inr ''first page'', Inr ''second page''] \<and>
   extract_text_from_pdf pdf_env ''good.PDF'' =
     Inr (''first page'' @ newline @ ''second page'' @ newline) \<and>
   PdfReader pdf_env ''report.PDF'' = Inr pdf_pages_sample \<and>
   extract_text_from_pdf pdf_env ''report.PDF'' = Inr []"
proof -
  have i: "PyPDF2_installed pdf_env" by (simp add: pdf_env_def)
  have g: "PdfReader pdf_env ''good.PDF'' = Inr [Inr ''first page'', Inr ''second page'']"
    by (simp add: pdf_env_def)
  have r: "PdfReader pdf_env ''report.PDF'' = Inr pdf_pages_sample"
    by (simp add: pdf_env_def)
  show ?thesis
    using i g r extract_text_from_pdf_pages [OF i g] extract_text_from_pdf_pages [OF i r]
    by (simp add: pdf_pages_sample_def)
qed

text \<open>
  C9 as stated fails: on a PDF of three pages whose second page cannot be read, the spec
  expects the first and the third page joined by a newline; the code returns the empty
  text.
\<close>

theorem pdf_page_failure_counterexample:
  "PyPDF2_installed pdf_env \<and>
   PdfReader pdf_env ''report.PDF'' = Inr pdf_pages_sample \<and>
   pdf_pages_sample = [Inr ''first page'', Inl LibraryError, Inr ''third page''] \<and>
   spec_pdf_text pdf_pages_sample = ''first page'' @ newline @ ''third page'' \<and>
   extract_text_from_pdf pdf_env ''report.PDF'' = Inr [] \<and>
   extract_text_from_pdf pdf_env ''report.PDF'' \<noteq> Inr (spec_pdf_text pdf_pages_sample)"
  by (simp add: pdf_env_def pdf_pages_sample_def spec_pdf_text_def extract_text_from_pdf_def
      try_except_def newline_def)

section \<open>Claims on the score\<close>

text \<open>
  C1, as amended: \<open>compare_submissions\<close> returns 0 whenever the text extracted from either
  file, before normalisation, is shorter than 50 characters; two submissions of one such
  file each score 0 and give no result.
\<close>

theorem compare_submissions_short_raw_text:
  assumes "extract_text_from_file ev path1 = Inr text1"
    and "extract_text_from_file ev path2 = Inr text2"
    and "length text1 < 50 \<or> length text2 < 50"
  shows "compare_submissions ev path1 path2 = Inr 0 \<and>
     compare_all_files_in_submissions ev [(file1_id, path1)] [(file2_id, path2)] = Inr 0 \<and>
     compare_all_submissions ev
       [(sub1_id, student1_id, [(file1_id, path1)]), (sub2_id, student2_id, [(file2_id, path2)])]
       = Inr []"
proof -
  have a: "compare_submissions ev path1 path2 = Inr 0"
    using assms by (simp add: compare_submissions_def)
  then have b: "compare_all_files_in_submissions ev [(file1_id, path1)] [(file2_id, path2)] = Inr 0"
    by (simp add: compare_all_files_in_submissions_def)
  then have "compare_all_submissions ev
       [(sub1_id, student1_id, [(file1_id, path1)]), (sub2_id, student2_id, [(file2_id, path2)])]
       = Inr []"
    by (simp add: compare_all_submissions_def)
  with a b show ?thesis by simp
qed

text \<open>C1 as amended, on a file of 19 characters compared with one of 63.\<close>

theorem compare_submissions_short_raw_text_witness:
  "extract_text_from_file sample_env ''uploads/q1.txt'' = Inr short_text \<and>
   extract_text_from_file sample_env ''uploads/s1.txt'' = Inr fox_text \<and>
   length short_text < 50 \<and>
   compare_submissions sample_env ''uploads/q1.txt'' ''uploads/s1.txt'' = Inr 0 \<and>
   compare_all_files_in_submissions sample_env [(24, ''uploads/q1.txt'')] [(21, ''uploads/s1.txt'')]
     = Inr 0 \<and>
   compare_all_submissions sample_env
     [(4, 13, [(24, ''uploads/q1.txt'')]), (2, 10, [(21, ''uploads/s1.txt'')])] = Inr []"
proof -
  have l: "length short_text < 50 \<or> length fox_text < 50" by (simp add: sample_lengths)
  show ?thesis
    using compare_submissions_short_raw_text [OF sample_texts(6) sample_texts(1) l, of 24 21 4 13 2 10]
    by (simp add: sample_texts sample_lengths)
qed

text \<open>
  C1 as stated fails: the guard reads the length of the extracted text, not of the
  normalised one. Two files of 50 characters whose normalised text has 5 characters
  score 100, and the pair is a result.
\<close>

theorem normalized_length_guard_counterexample:
  "extract_text_from_file sample_env ''uploads/p1.txt'' = Inr padded_text \<and>
   extract_text_from_file sample_env ''uploads/p2.txt'' = Inr padded_text \<and>
   length (preprocess_text padded_text) = 5 \<and>
   compare_submissions sample_env ''uploads/p1.txt'' ''uploads/p2.txt'' = Inr 100 \<and>
   compare_all_submissions sample_env
     [(11, 20, [(41, ''uploads/p1.txt'')]), (12, 21, [(42, ''uploads/p2.txt'')])]
     = Inr [(11, 12, 100)]"
  by (simp add: sample_texts length_padded sample_scores compare_all_submissions_def
      compare_all_files_in_submissions_def)

text \<open>
  C5: the score is symmetric. \<open>calculate_cosine_similarity\<close> gives the same value for two
  texts in either order, and \<open>compare_all_files_in_submissions\<close> gives the same result
  for two file lists in either order.
\<close>

theorem similarity_symmetric:
  "calculate_cosine_similarity text1 text2 = calculate_cosine_similarity text2 text1 \<and>
   compare_all_files_in_submissions ev files1 files2 =
     compare_all_files_in_submissions ev files2 files1"
  by (simp add: cosine_symmetric [of text1 text2] compare_all_files_symmetric [of ev files1 files2])

text \<open>
  C6: for two non-empty file lists, \<open>compare_all_files_in_submissions\<close> returns the
  maximum, over the product of the two lists, of the score of the pair of files: the
  value \<open>compare_submissions\<close> returns for their paths, which is the cosine score of the
  extracted texts under the minimum-content guard.
\<close>

theorem compare_all_files_is_maximum:
  assumes "files1 \<noteq> []" and "files2 \<noteq> []"
  shows "compare_all_files_in_submissions ev files1 files2 =
     Inr (Max {s. \<exists>f1\<in>set files1. \<exists>f2\<in>set files2.
                    compare_submissions ev (snd f1) (snd f2) = Inr s})"
  using assms by (rule compare_all_files_is_Max)

text \<open>
  C6 on the sample data: of the four pairs of files one is a pair of equal texts, and the
  result is its score 100, not an average.
\<close>

theorem compare_all_files_is_maximum_witness:
  "[(21, ''uploads/s1.txt''), (23, ''uploads/s3.txt'')] \<noteq> ([] :: file_ref list) \<and>
   [(22, ''uploads/s2.txt''), (24, ''uploads/q1.txt'')] \<noteq> ([] :: file_ref list) \<and>
   compare_all_files_in_submissions sample_env
     [(21, ''uploads/s1.txt''), (23, ''uploads/s3.txt'')]
     [(22, ''uploads/s2.txt''), (24, ''uploads/q1.txt'')] = Inr 100 \<and>
   Max {s. \<exists>f1\<in>set [(21 :: uuid, ''uploads/s1.txt''), (23, ''uploads/s3.txt'')].
           \<exists>f2\<in>set [(22 :: uuid, ''uploads/s2.txt''), (24, ''uploads/q1.txt'')].
             compare_submissions sample_env (snd f1) (snd f2) = Inr s} = 100"
proof -
  have v: "compare_all_files_in_submissions sample_env
     [(21, ''uploads/s1.txt''), (23, ''uploads/s3.txt'')]
     [(22, ''uploads/s2.txt''), (24, ''uploads/q1.txt'')] = Inr 100"
    by (simp add: compare_all_files_in_submissions_def sample_scores)
  show ?thesis
    using v compare_all_files_is_maximum [of "[(21, ''uploads/s1.txt''), (23, ''uploads/s3.txt'')]"
      "[(22, ''uploads/s2.txt''), (24, ''uploads/q1.txt'')]" sample_env]
    by simp
qed

text \<open>
  C7: \<open>compare_all_submissions\<close> returns, for the index pairs \<open>i < j\<close> in the order of the
  two loops, one result for each pair whose students differ, whose file lists are both
  non-empty and whose score is positive, and nothing for any other pair: no pair of one
  student, no pair with an empty file list, each remaining pair once.
\<close>

theorem compare_all_submissions_pairs:
  "compare_all_submissions ev subs =
     Inr [(fst (subs ! i), fst (subs ! j),
           projr (compare_all_files_in_submissions ev (snd (snd (subs ! i))) (snd (snd (subs ! j))))).
          i \<leftarrow> [0..<length subs], j \<leftarrow> [Suc i..<length subs],
          fst (snd (subs ! i)) \<noteq> fst (snd (subs ! j)),
          snd (snd (subs ! i)) \<noteq> [] \<and> snd (snd (subs ! j)) \<noteq> [],
          0 < projr (compare_all_files_in_submissions ev (snd (snd (subs ! i))) (snd (snd (subs ! j))))]"
  by (rule compare_all_submissions_index)

text \<open>
  C7 on the sample data: the submissions 12 and 14 of one student hold the same text and
  give no result, the submission 15 without files gives none, and the two remaining
  pairs of equal texts give one result each.
\<close>

theorem compare_all_submissions_pairs_witness:
  "compare_all_submissions sample_env
     [(12, 20, [(31, ''uploads/s1.txt'')]), (11, 21, [(32, ''uploads/s2.txt'')]),
      (14, 20, [(34, ''uploads/s2.txt'')]), (15, 23, [])] =
   Inr [(12, 11, 100), (11, 14, 100)]"
proof -
  have "compare_all_submissions sample_env
     [(12, 20, [(31, ''uploads/s1.txt'')]), (11, 21, [(32, ''uploads/s2.txt'')]),
      (14, 20, [(34, ''uploads/s2.txt'')]), (15, 23, [])] =
   Inr [(12, 11, 100), (11, 14, 100)]"
    by (simp add: compare_all_submissions_def compare_all_files_in_submissions_def
        sample_scores sample_score_same_file)
  then show ?thesis
    using compare_all_submissions_pairs [of sample_env
      "[(12, 20, [(31, ''uploads/s1.txt'')]), (11, 21, [(32, ''uploads/s2.txt'')]),
        (14, 20, [(34, ''uploads/s2.txt'')]), (15, 23, [])]"]
    by simp
qed

section \<open>Claims on the background run\<close>

text \<open>
  C2, as amended: when at least two submissions of the assignment have a file on disk,
  the run returns, and afterwards the stored matches of the assignment are exactly the
  rows built from the results of this run, all earlier rows of the assignment deleted,
  and the matches of other assignments are untouched; when fewer than two submissions
  are eligible, the run returns early and leaves the database as it was.
\<close>

theorem run_replaces_matches:
  assumes "data = prepare_submission_data ev cfg
                    (filter (\<lambda>s. submission_assignment_id s = a) (submissions d))"
  shows "(2 \<le> length data \<longrightarrow>
           (\<exists>results d'.
              compare_all_submissions ev data = Inr results \<and>
              run_plagiarism_check ev cfg a d = Inr d' \<and>
              filter (\<lambda>m. match_assignment_id m = a) (plagiarism_matches d') =
                map (new_match a) results \<and>
              filter (\<lambda>m. match_assignment_id m \<noteq> a) (plagiarism_matches d') =
                filter (\<lambda>m. match_assignment_id m \<noteq> a) (plagiarism_matches d))) \<and>
         (length data < 2 \<longrightarrow> run_plagiarism_check ev cfg a d = Inr d)"
proof (intro conjI impI)
  assume "length data < 2"
  then show "run_plagiarism_check ev cfg a d = Inr d"
    unfolding assms by (rule run_cases(1))
next
  assume "2 \<le> length data"
  then have run: "run_plagiarism_check ev cfg a d =
      Inr (d\<lparr>plagiarism_matches :=
               filter (\<lambda>m. match_assignment_id m \<noteq> a) (plagiarism_matches d)
               @ map (new_match a) (pair_results_from ev data)\<rparr>)"
    unfolding assms by (rule run_cases(2))
  have keep: "filter (\<lambda>m. match_assignment_id m = a) (map (new_match a) rs) = map (new_match a) rs"
    and drop: "filter (\<lambda>m. match_assignment_id m \<noteq> a) (map (new_match a) rs) = []" for rs
    by (simp_all add: filter_map o_def new_match_fields)
  have old: "filter (\<lambda>m. match_assignment_id m = a)
               (filter (\<lambda>m. match_assignment_id m \<noteq> a) ms) = []" for ms :: "plagiarism_match list"
    by (induction ms) simp_all
  show "\<exists>results d'.
          compare_all_submissions ev data = Inr results \<and>
          run_plagiarism_check ev cfg a d = Inr d' \<and>
          filter (\<lambda>m. match_assignment_id m = a) (plagiarism_matches d') =
            map (new_match a) results \<and>
          filter (\<lambda>m. match_assignment_id m \<noteq> a) (plagiarism_matches d') =
            filter (\<lambda>m. match_assignment_id m \<noteq> a) (plagiarism_matches d)"
    by (intro exI conjI, rule compare_all_submissions_from, rule run)
      (simp_all add: keep drop old)
qed

text \<open>
  C2 as amended, on the sample database: with the files on disk the run replaces the
  earlier match of assignment 7 by the one it computes; with no file on disk it changes
  nothing.
\<close>

theorem run_replaces_matches_witness:
  "prepare_submission_data sample_env sample_settings
     (filter (\<lambda>s. submission_assignment_id s = 7) (submissions sample_db)) =
   [(12, 20, [(31, ''uploads/s1.txt'')]), (11, 21, [(32, ''uploads/s2.txt'')]),
    (13, 22, [(33, ''uploads/s3.txt'')])] \<and>
   compare_all_submissions sample_env
     [(12, 20, [(31, ''uploads/s1.txt'')]), (11, 21, [(32, ''uploads/s2.txt'')]),
      (13, 22, [(33, ''uploads/s3.txt'')])] = Inr [(12, 11, 100)] \<and>
   run_plagiarism_check sample_env sample_settings 7 sample_db =
     Inr (sample_db\<lparr>plagiarism_matches :=
            [\<lparr>match_assignment_id = 8, submission1_id = 14, submission2_id = 15,
              similarity_score = 80\<rparr>,
             \<lparr>match_assignment_id = 7, submission1_id = 11, submission2_id = 12,
              similarity_score = 100\<rparr>]\<rparr>) \<and>
   prepare_submission_data (text_files []) sample_settings
     (filter (\<lambda>s. submission_assignment_id s = 7) (submissions sample_db)) = [] \<and>
   run_plagiarism_check (text_files []) sample_settings 7 sample_db = Inr sample_db"
  using run_replaces_matches [OF sample_data [symmetric]]
    run_replaces_matches [OF sample_no_files [symmetric]]
  by (simp add: sample_data sample_results sample_run sample_no_files sample_run_no_files)

text \<open>
  C2 as stated fails when fewer than two submissions are eligible: with no file on disk
  the run's input gives no result, and the match of the earlier run stays stored.
\<close>

theorem stale_matches_counterexample:
  "prepare_submission_data (text_files []) sample_settings
     (filter (\<lambda>s. submission_assignment_id s = 7) (submissions sample_db)) = [] \<and>
   compare_all_submissions (text_files []) [] = Inr [] \<and>
   run_plagiarism_check (text_files []) sample_settings 7 sample_db = Inr sample_db \<and>
   filter (\<lambda>m. match_assignment_id m = 7) (plagiarism_matches sample_db) =
     [\<lparr>match_assignment_id = 7, submission1_id = 11, submission2_id = 13,
       similarity_score = 55\<rparr>]"
  by (simp add: sample_no_files sample_run_no_files compare_all_submissions_def)
    (simp add: sample_db_def)



section \<open>Claims on the report\<close>




text \<open>
  C10: a stored match of the assignment with a submission or a student that is not found
  does not appear in the matches list of the report, while it is a member of the stored
  matches that \<open>total_comparisons\<close>, \<open>high_similarity_count\<close> and
  \<open>medium_similarity_count\<close> count; when its score is at or above the threshold, the list
  is shorter than the number of stored matches at or above the threshold.
\<close>

theorem report_omits_unresolved_matches:
  assumes "get_plagiarism_report d a threshold current_user = Inr r"
    and "m \<in> set (plagiarism_matches d)" and "match_assignment_id m = a"
    and "record_missing d m"
  shows "(\<forall>e\<in>set (matches r).
            (response_submission1_id e, response_submission2_id e) \<noteq>
            (submission1_id m, submission2_id m)) \<and>
         m \<in> set (filter (\<lambda>x. match_assignment_id x = a) (plagiarism_matches d)) \<and>
         total_comparisons r =
           length (filter (\<lambda>x. match_assignment_id x = a) (plagiarism_matches d)) \<and>
         high_similarity_count r =
           length (filter (\<lambda>x. match_assignment_id x = a \<and> 70 < similarity_score x)
                     (plagiarism_matches d)) \<and>
         medium_similarity_count r =
           length (filter (\<lambda>x. match_assignment_id x = a \<and>
                                 (50 \<le> similarity_score x \<and> similarity_score x \<le> 70))
                     (plagiarism_matches d)) \<and>
         (threshold \<le> similarity_score m \<longrightarrow>
            length (matches r) <
            length (filter (\<lambda>x. match_assignment_id x = a \<and> threshold \<le> similarity_score x)
                      (plagiarism_matches d)))"
  using assms report_fields(1-3) [OF assms(1)] report_omits [OF assms(1) assms(4)]
    report_shorter [OF assms]
  by simp

text \<open>C10 on the sample report: three matches counted, two at or above 50, one listed.\<close>

theorem report_omits_unresolved_matches_witness:
  "get_plagiarism_report report_db 7 50 admin_user =
     Inr \<lparr>report_assignment_id = 7, total_submissions = 3, total_comparisons = 3,
           matches = [\<lparr>response_assignment_id = 7, response_submission1_id = 11,
                       response_submission2_id = 12, response_similarity_score = 60,
                       student1 = (21, ''Bob''), student2 = (20, ''Ann'')\<rparr>],
           high_similarity_count = 1, medium_similarity_count = 1\<rparr> \<and>
   \<lparr>match_assignment_id = 7, submission1_id = 11, submission2_id = 19, similarity_score = 90\<rparr>
     \<in> set (plagiarism_matches report_db) \<and>
   record_missing report_db
     \<lparr>match_assignment_id = 7, submission1_id = 11, submission2_id = 19, similarity_score = 90\<rparr> \<and>
   length (filter (\<lambda>x. match_assignment_id x = 7) (plagiarism_matches report_db)) = 3 \<and>
   length (filter (\<lambda>x. match_assignment_id x = 7 \<and> 70 < similarity_score x)
             (plagiarism_matches report_db)) = 1 \<and>
   length (filter (\<lambda>x. match_assignment_id x = 7 \<and> 50 \<le> similarity_score x)
             (plagiarism_matches report_db)) = 2"
proof -
  have mem: "\<lparr>match_assignment_id = 7, submission1_id = 11, submission2_id = 19, similarity_score = 90\<rparr>
     \<in> set (plagiarism_matches report_db)"
    by (simp add: report_db_def)
  have a: "match_assignment_id
     \<lparr>match_assignment_id = 7, submission1_id = 11, submission2_id = 19, similarity_score = 90\<rparr> = 7"
    by simp
  show ?thesis
    using report_omits_unresolved_matches [OF report_db_threshold_50 mem a report_db_missing]
      report_db_threshold_50 mem report_db_missing
    by (simp add: report_db_def)
qed

end
